theory Spec2Isabelle
  imports Main
begin

section \<open>Values and results\<close>

text \<open>
  The module \<^verbatim>\<open>search_wiki_article.py\<close> returns plain Python dictionaries whose values are
  strings, lists of strings, or an integer count. A dictionary literal is modelled as an
  association list in the order the literal writes its keys (Python dictionaries keep
  insertion order); \<open>map_of\<close> is the lookup and \<open>map fst\<close> the key view.
\<close>

datatype pyval = Str string | StrList "string list" | PyInt int

type_synonym pydict = "(string \<times> pyval) list"

text \<open>
  Faults. The only exception the module can meet on its intended inputs comes from the
  external library \<^verbatim>\<open>wikipediaapi\<close> (network, malformed response, a refused argument);
  the module never catches it. \<open>KeyError\<close> and \<open>TypeError\<close> are what the dictionary reads
  of \<^verbatim>\<open>main\<close> raise on a dictionary of another shape.
\<close>

datatype exn = TransportFault string | KeyError string | TypeError

section \<open>Config\<close>

record Config =
  language :: string

text \<open>\<^verbatim>\<open>Config.__init__(self, language='en')\<close>; \<open>None\<close> is the omitted argument.\<close>

definition Config_init :: "string option \<Rightarrow> Config" where
  "Config_init language_arg =
     \<lparr>language = (case language_arg of None \<Rightarrow> ''en'' | Some l \<Rightarrow> l)\<rparr>"

text \<open>\<^verbatim>\<open>Config.set_language\<close>: the in-place field update, returned as the new value.\<close>

definition Config_set_language :: "Config \<Rightarrow> string \<Rightarrow> Config" where
  "Config_set_language self l = self\<lparr>language := l\<rparr>"

definition to_dict :: "Config \<Rightarrow> (string \<times> string) list" where
  "to_dict self = [(''language'', language self)]"

text \<open>\<^verbatim>\<open>Config.__repr__\<close>: \<^verbatim>\<open>f"Config(language='{self.language}')"\<close>.\<close>

definition Config_repr :: "Config \<Rightarrow> string" where
  "Config_repr self = ''Config(language='' @ [CHR 0x27] @ language self @ [CHR 0x27] @ '')''"

section \<open>The external library\<close>

text \<open>
  The page object of \<^verbatim>\<open>wikipediaapi\<close>, narrowed to the attributes the module reads:
  \<^verbatim>\<open>exists()\<close>, \<^verbatim>\<open>title\<close>, \<^verbatim>\<open>fullurl\<close>, \<^verbatim>\<open>summary\<close>, \<^verbatim>\<open>text\<close>, \<^verbatim>\<open>categories\<close> (a dictionary
  whose values carry a title), \<^verbatim>\<open>links\<close> (a dictionary from link title to an opaque
  reference of type \<open>'r\<close>) and \<^verbatim>\<open>sections\<close> (a list of objects carrying a title). Both
  dictionaries are association lists in the order the library filled them.
\<close>

record category =
  category_title :: string

record section_obj =
  section_title :: string

record 'r WikipediaPage =
  exists :: bool
  title :: string
  fullurl :: string
  summary :: string
  page_text :: string
  categories :: "(string \<times> category) list"
  links :: "(string \<times> 'r) list"
  sections :: "section_obj list"

text \<open>
  The library is not part of the repository, so it is a parameter: \<open>Wikipedia\<close> is the
  constructor \<^verbatim>\<open>wikipediaapi.Wikipedia(user_agent=..., language=...)\<close> that acquires a
  handle of type \<open>'h\<close>, and \<open>page\<close> is \<^verbatim>\<open>handle.page(title)\<close> together with the reads of
  the returned object. Either may fail with a fault, which the module lets through.
\<close>

record ('h, 'r) wikipediaapi =
  Wikipedia :: "string \<Rightarrow> string \<Rightarrow> exn + 'h"
  page :: "'h \<Rightarrow> string \<Rightarrow> exn + 'r WikipediaPage"

section \<open>WikiArticles\<close>

record 'h WikiArticles =
  config :: Config
  wiki :: 'h

definition USER_AGENT :: string where
  "USER_AGENT = ''MyApp/1.0 (your@email.com)''"

text \<open>
  \<^verbatim>\<open>WikiArticles.__init__(self, config=None)\<close>: \<^verbatim>\<open>config or Config()\<close> (a \<^verbatim>\<open>Config\<close> object is
  always truthy), then the handle is acquired for the configuration's language.
\<close>

definition WikiArticles_init ::
  "('h, 'r) wikipediaapi \<Rightarrow> Config option \<Rightarrow> exn + 'h WikiArticles" where
  "WikiArticles_init api config_arg =
     (let cfg = (case config_arg of None \<Rightarrow> Config_init None | Some c \<Rightarrow> c)
      in case Wikipedia api USER_AGENT (language cfg) of
           Inl e \<Rightarrow> Inl e
         | Inr h \<Rightarrow> Inr \<lparr>config = cfg, wiki = h\<rparr>)"

text \<open>\<^verbatim>\<open>{"error": f"Page '{title}' does not exist"}\<close>\<close>

definition not_found :: "string \<Rightarrow> pydict" where
  "not_found t =
     [(''error'', Str (''Page '' @ [CHR 0x27] @ t @ [CHR 0x27] @ '' does not exist''))]"

text \<open>
  Every method takes the object and returns its result together with the object as the
  method leaves it. A fault of the library propagates as \<open>Inl\<close>.
\<close>

definition get_full_article ::
  "('h, 'r) wikipediaapi \<Rightarrow> 'h WikiArticles \<Rightarrow> string \<Rightarrow> (exn + pydict) \<times> 'h WikiArticles" where
  "get_full_article api self t =
     (case page api (wiki self) t of
        Inl e \<Rightarrow> (Inl e, self)
      | Inr p \<Rightarrow>
          if \<not> exists p then (Inr (not_found t), self)
          else (Inr [(''title'', Str (title p)),
                     (''url'', Str (fullurl p)),
                     (''summary'', Str (summary p)),
                     (''full_text'', Str (page_text p)),
                     (''categories'', StrList (map category_title (map snd (categories p)))),
                     (''links'', StrList (take 20 (map fst (links p)))),
                     (''sections'', StrList (map section_title (sections p)))], self))"

definition get_summary ::
  "('h, 'r) wikipediaapi \<Rightarrow> 'h WikiArticles \<Rightarrow> string \<Rightarrow> (exn + pydict) \<times> 'h WikiArticles" where
  "get_summary api self t =
     (case page api (wiki self) t of
        Inl e \<Rightarrow> (Inl e, self)
      | Inr p \<Rightarrow>
          if \<not> exists p then (Inr (not_found t), self)
          else (Inr [(''title'', Str (title p)),
                     (''summary'', Str (summary p))], self))"

definition get_sections ::
  "('h, 'r) wikipediaapi \<Rightarrow> 'h WikiArticles \<Rightarrow> string \<Rightarrow> (exn + pydict) \<times> 'h WikiArticles" where
  "get_sections api self t =
     (case page api (wiki self) t of
        Inl e \<Rightarrow> (Inl e, self)
      | Inr p \<Rightarrow>
          if \<not> exists p then (Inr (not_found t), self)
          else (Inr [(''title'', Str (title p)),
                     (''sections'', StrList (map section_title (sections p)))], self))"

text \<open>
  The Python slice \<^verbatim>\<open>xs[:n]\<close>: a negative bound counts from the end and is clamped at
  the start of the list, a bound past the end is clamped at the end, and \<^verbatim>\<open>xs[:None]\<close> is
  the whole list.
\<close>

definition slice_to :: "'a list \<Rightarrow> int option \<Rightarrow> 'a list" where
  "slice_to xs bound =
     (case bound of
        None \<Rightarrow> xs
      | Some n \<Rightarrow> if n < 0 then take (nat (int (length xs) + n)) xs else take (nat n) xs)"

text \<open>Truth value of an \<^verbatim>\<open>Optional[int]\<close>: \<^verbatim>\<open>None\<close> and \<^verbatim>\<open>0\<close> are false.\<close>

definition truthy :: "int option \<Rightarrow> bool" where
  "truthy limit = (case limit of None \<Rightarrow> False | Some n \<Rightarrow> n \<noteq> 0)"

definition get_links ::
  "('h, 'r) wikipediaapi \<Rightarrow> 'h WikiArticles \<Rightarrow> string \<Rightarrow> int option \<Rightarrow>
     (exn + pydict) \<times> 'h WikiArticles" where
  "get_links api self t limit =
     (case page api (wiki self) t of
        Inl e \<Rightarrow> (Inl e, self)
      | Inr p \<Rightarrow>
          if \<not> exists p then (Inr (not_found t), self)
          else
            (let links0 = map fst (links p);
                 links1 = (if truthy limit then slice_to links0 limit else links0)
             in (Inr [(''title'', Str (title p)),
                      (''links'', StrList links1),
                      (''total_links'', PyInt (int (length (map fst (links p)))))], self)))"

text \<open>
  \<^verbatim>\<open>WikiArticles.set_language\<close>: first the configuration is updated, then a new handle is
  acquired for \<^verbatim>\<open>self.config.language\<close> and stored. When the acquisition raises, the
  assignment to \<^verbatim>\<open>self.wiki\<close> never happens: the fault leaves the object with the new
  configuration and the old handle.
\<close>

definition set_language ::
  "('h, 'r) wikipediaapi \<Rightarrow> 'h WikiArticles \<Rightarrow> string \<Rightarrow> (exn + unit) \<times> 'h WikiArticles" where
  "set_language api self l =
     (let self1 = self\<lparr>config := Config_set_language (config self) l\<rparr>
      in case Wikipedia api USER_AGENT (language (config self1)) of
           Inl e \<Rightarrow> (Inl e, self1)
         | Inr h \<Rightarrow> (Inr (), self1\<lparr>wiki := h\<rparr>))"

section \<open>The command line\<close>

text \<open>
  \<^verbatim>\<open>main\<close> reads \<^verbatim>\<open>sys.argv\<close>, prints lines and either returns, leaves through
  \<^verbatim>\<open>sys.exit(code)\<close>, or is left by an exception nobody catches. The model returns the
  arguments of the \<^verbatim>\<open>print\<close> calls made so far, in order, and how the run ended.
\<close>

datatype outcome = Returned | SystemExit int | Raised exn

text \<open>An expression made of two steps, either of which may raise.\<close>

definition bind_exn :: "exn + 'a \<Rightarrow> ('a \<Rightarrow> exn + 'b) \<Rightarrow> exn + 'b" where
  "bind_exn m f = (case m of Inl e \<Rightarrow> Inl e | Inr v \<Rightarrow> f v)"

text \<open>\<^verbatim>\<open>d[k]\<close>\<close>

definition getitem :: "pydict \<Rightarrow> string \<Rightarrow> exn + pyval" where
  "getitem d k = (case map_of d k of None \<Rightarrow> Inl (KeyError k) | Some v \<Rightarrow> Inr v)"

text \<open>
  The values \<^verbatim>\<open>main\<close> prints or formats into an f-string are the ones
  \<^verbatim>\<open>get_full_article\<close> stored as \<^verbatim>\<open>str\<close>, which format as themselves. Python would print
  the \<^verbatim>\<open>repr\<close> of a list or the digits of an integer here; \<^verbatim>\<open>main\<close> never reaches that,
  and the model answers \<open>TypeError\<close> there instead of spelling \<^verbatim>\<open>repr\<close> out.
\<close>

fun format_str :: "pyval \<Rightarrow> exn + string" where
  "format_str (Str s) = Inr s"
| "format_str (StrList xs) = Inl TypeError"
| "format_str (PyInt i) = Inl TypeError"

text \<open>
  \<^verbatim>\<open>len(v)\<close>: the length of a string or a list; an integer has none. Python counts the
  code points of a string and \<open>length\<close> counts its \<open>char\<close>s, so the two agree on text
  whose code points each fit one \<open>char\<close> (Latin-1); text beyond that is outside what
  \<open>string\<close> represents one element per code point, and its count is not modelled.
\<close>

fun py_len :: "pyval \<Rightarrow> exn + nat" where
  "py_len (Str s) = Inr (length s)"
| "py_len (StrList xs) = Inr (length xs)"
| "py_len (PyInt i) = Inl TypeError"

text \<open>\<^verbatim>\<open>sep.join(xs)\<close>\<close>

fun join :: "string \<Rightarrow> string list \<Rightarrow> string" where
  "join sep [] = []"
| "join sep [x] = x"
| "join sep (x # y # ys) = x @ sep @ join sep (y # ys)"

text \<open>
  \<^verbatim>\<open>', '.join(v[:5])\<close>: the first five elements of a list, or the first five characters
  of a string; an integer cannot be sliced.
\<close>

fun join_first5 :: "pyval \<Rightarrow> exn + string" where
  "join_first5 (StrList xs) = Inr (join '', '' (take 5 xs))"
| "join_first5 (Str s) = Inr (join '', '' (map (\<lambda>c. [c]) (take 5 s)))"
| "join_first5 (PyInt i) = Inl TypeError"

text \<open>Decimal digits of a natural number, as \<^verbatim>\<open>str\<close> of a non-negative \<^verbatim>\<open>int\<close> gives them.\<close>

fun str_nat :: "nat \<Rightarrow> string" where
  "str_nat n =
     (if n < 10 then [char_of (48 + n)]
      else str_nat (n div 10) @ [char_of (48 + n mod 10)])"

declare str_nat.simps [simp del]

definition usage :: string where
  "usage = ''Usage: python search_wiki_article.py <article_title> [language]''"

text \<open>The prints of \<^verbatim>\<open>main\<close> after the check for the \<^verbatim>\<open>error\<close> key.\<close>

definition print_article :: "string list \<Rightarrow> pydict \<Rightarrow> string list \<times> outcome" where
  "print_article out article =
     (case bind_exn (getitem article ''title'') format_str of
        Inl e \<Rightarrow> (out, Raised e)
      | Inr t \<Rightarrow>
     (let out1 = out @ [''Title: '' @ t] in
      case bind_exn (getitem article ''url'') format_str of
        Inl e \<Rightarrow> (out1, Raised e)
      | Inr u \<Rightarrow>
     (let out2 = out1 @ [''URL: '' @ u, CHR 0x0A # ''--- FULL ARTICLE ---''] in
      case bind_exn (getitem article ''full_text'') format_str of
        Inl e \<Rightarrow> (out2, Raised e)
      | Inr ft \<Rightarrow>
     (let out3 = out2 @ [ft, CHR 0x0A # ''--- METADATA ---''] in
      case bind_exn (getitem article ''full_text'') py_len of
        Inl e \<Rightarrow> (out3, Raised e)
      | Inr n \<Rightarrow>
     (let out4 = out3 @ [''Total characters: '' @ str_nat n] in
      case bind_exn (getitem article ''sections'') join_first5 of
        Inl e \<Rightarrow> (out4, Raised e)
      | Inr ss \<Rightarrow> (out4 @ [''Sections: '' @ ss @ ''...''], Returned))))))"

definition main :: "('h, 'r) wikipediaapi \<Rightarrow> string list \<Rightarrow> string list \<times> outcome" where
  "main api argv =
     (if length argv < 2 then ([usage], SystemExit 1)
      else
        (let article_title = argv ! 1;
             language_arg = (if length argv > 2 then argv ! 2 else ''en'');
             cfg = Config_init (Some language_arg)
         in case WikiArticles_init api (Some cfg) of
              Inl e \<Rightarrow> ([], Raised e)
            | Inr w \<Rightarrow>
                (let out = [''Configuration: '' @ Config_repr cfg]
                 in case fst (get_full_article api w article_title) of
                      Inl e \<Rightarrow> (out, Raised e)
                    | Inr article \<Rightarrow>
                        if ''error'' \<in> set (map fst article) then
                          (case bind_exn (getitem article ''error'') format_str of
                             Inl e \<Rightarrow> (out, Raised e)
                           | Inr msg \<Rightarrow> (out @ [''Error: '' @ msg], SystemExit 1))
                        else print_article out article)))"

section \<open>Test doubles\<close>

text \<open>
  A stand-in for the library, in the manner of the mocks of
  \<^verbatim>\<open>test_search_wiki_article.py\<close>: the handle records the arguments it was acquired with,
  the constructor refuses an empty language code, the page \<^verbatim>\<open>Python\<close> exists with \<open>n\<close>
  links \<^verbatim>\<open>Link0\<close>, \<^verbatim>\<open>Link1\<close>, ... and two sections, and no other page exists.
\<close>

definition link_titles :: "nat \<Rightarrow> string list" where
  "link_titles n = map (\<lambda>i. ''Link'' @ str_nat i) [0..<n]"

definition mock_page :: "nat \<Rightarrow> unit WikipediaPage" where
  "mock_page n =
     \<lparr>exists = True,
      title = ''Python'',
      fullurl = ''https://en.wikipedia.org/wiki/Python'',
      summary = ''Python is a programming language.'',
      page_text = ''Python is a high-level programming language...'',
      categories = [(''Category:Programming languages'',
                     \<lparr>category_title = ''Category:Programming languages''\<rparr>)],
      links = map (\<lambda>k. (k, ())) (link_titles n),
      sections = [\<lparr>section_title = ''Overview''\<rparr>, \<lparr>section_title = ''History''\<rparr>]\<rparr>"

definition mock_missing :: "string \<Rightarrow> unit WikipediaPage" where
  "mock_missing t =
     \<lparr>exists = False, title = t, fullurl = [], summary = [], page_text = [],
      categories = [], links = [], sections = []\<rparr>"

definition mock_wikipedia :: "nat \<Rightarrow> (string \<times> string, unit) wikipediaapi" where
  "mock_wikipedia n =
     \<lparr>Wikipedia = (\<lambda>ua l. if l = [] then Inl (TransportFault ''no language'') else Inr (ua, l)),
      page = (\<lambda>h t. if t = ''Python'' then Inr (mock_page n) else Inr (mock_missing t))\<rparr>"

text \<open>A facade as \<^verbatim>\<open>WikiArticles(Config(language=l))\<close> builds it over the stand-in.\<close>

definition mock_wiki :: "string \<Rightarrow> (string \<times> string) WikiArticles" where
  "mock_wiki l = \<lparr>config = \<lparr>language = l\<rparr>, wiki = (USER_AGENT, l)\<rparr>"

section \<open>Configuration round trip\<close>

text \<open>
  C7. For every string \<open>X\<close> (so for every non-empty one, recognised as a language code or
  not), \<^verbatim>\<open>Config(language=X).to_dict()\<close> is exactly \<^verbatim>\<open>{"language": X}\<close>: the code is stored
  as given, nothing validates it.
\<close>

theorem Config_to_dict_roundtrip:
  "to_dict (Config_init (Some X)) = [(''language'', X)]"
  by (simp add: to_dict_def Config_init_def)

section \<open>Facts about the test doubles\<close>


lemma link_titles_10: "link_titles 10 = [''Link0'', ''Link1'', ''Link2'', ''Link3'', ''Link4'', ''Link5'',
  ''Link6'', ''Link7'', ''Link8'', ''Link9'']"
  by code_simp

lemma length_link_titles: "length (link_titles n) = n"
  by (simp add: link_titles_def)

lemma mock_page_reads:
  "page (mock_wikipedia n) h ''Python'' = Inr (mock_page n)"
  "exists (mock_page n)"
  "title (mock_page n) = ''Python''"
  "summary (mock_page n) = ''Python is a programming language.''"
  "map fst (links (mock_page n)) = link_titles n"
  "length (links (mock_page n)) = n"
  by (simp_all add: mock_wikipedia_def mock_page_def comp_def length_link_titles)

section \<open>Pages that do not exist\<close>

text \<open>
  C1. When the library reports that the page of a title does not exist, each of
  \<^verbatim>\<open>get_full_article\<close>, \<^verbatim>\<open>get_summary\<close>, \<^verbatim>\<open>get_sections\<close> and \<^verbatim>\<open>get_links\<close> (with any limit)
  returns normally (\<open>Inr\<close>, not a fault) the dictionary whose single key is \<^verbatim>\<open>error\<close> and
  whose value is \<^verbatim>\<open>Page '<title>' does not exist\<close>, the requested title copied in between
  the two apostrophes unchanged.
\<close>

theorem missing_page_error_mapping:
  assumes "page api (wiki self) t = Inr p" and "\<not> exists p"
  shows "fst (get_full_article api self t) =
           Inr [(''error'', Str (''Page '' @ [CHR 0x27] @ t @ [CHR 0x27] @ '' does not exist''))]
       \<and> fst (get_summary api self t) =
           Inr [(''error'', Str (''Page '' @ [CHR 0x27] @ t @ [CHR 0x27] @ '' does not exist''))]
       \<and> fst (get_sections api self t) =
           Inr [(''error'', Str (''Page '' @ [CHR 0x27] @ t @ [CHR 0x27] @ '' does not exist''))]
       \<and> fst (get_links api self t limit) =
           Inr [(''error'', Str (''Page '' @ [CHR 0x27] @ t @ [CHR 0x27] @ '' does not exist''))]"
  using assms
  by (simp add: get_full_article_def get_summary_def get_sections_def get_links_def not_found_def)

theorem missing_page_error_mapping_witness:
  "page (mock_wikipedia 3) (wiki (mock_wiki ''en'')) ''Atlantis'' = Inr (mock_missing ''Atlantis'')
   \<and> \<not> exists (mock_missing ''Atlantis'')
   \<and> fst (get_full_article (mock_wikipedia 3) (mock_wiki ''en'') ''Atlantis'') =
        Inr [(''error'', Str (''Page '' @ [CHR 0x27] @ ''Atlantis'' @ [CHR 0x27] @ '' does not exist''))]
   \<and> fst (get_summary (mock_wikipedia 3) (mock_wiki ''en'') ''Atlantis'') =
        Inr [(''error'', Str (''Page '' @ [CHR 0x27] @ ''Atlantis'' @ [CHR 0x27] @ '' does not exist''))]
   \<and> fst (get_sections (mock_wikipedia 3) (mock_wiki ''en'') ''Atlantis'') =
        Inr [(''error'', Str (''Page '' @ [CHR 0x27] @ ''Atlantis'' @ [CHR 0x27] @ '' does not exist''))]
   \<and> fst (get_links (mock_wikipedia 3) (mock_wiki ''en'') ''Atlantis'' (Some 5)) =
        Inr [(''error'', Str (''Page '' @ [CHR 0x27] @ ''Atlantis'' @ [CHR 0x27] @ '' does not exist''))]"
proof -
  have h1: "page (mock_wikipedia 3) (wiki (mock_wiki ''en'')) ''Atlantis'' = Inr (mock_missing ''Atlantis'')"
    by (simp add: mock_wikipedia_def)
  have h2: "\<not> exists (mock_missing ''Atlantis'')"
    by (simp add: mock_missing_def)
  from missing_page_error_mapping [OF h1 h2, of "Some 5"] h1 h2 show ?thesis
    by simp
qed

section \<open>The limit of get\_links\<close>




text \<open>
  C3. For a page that exists and any limit, \<^verbatim>\<open>total_links\<close> in the result of \<^verbatim>\<open>get_links\<close>
  is the number of all links of the page, whatever list \<open>ls\<close> the \<^verbatim>\<open>links\<close> field holds
  after truncation; with 10 links and limit 5 the \<^verbatim>\<open>links\<close> field has length 5 (and
  \<^verbatim>\<open>total_links\<close> is 10).
\<close>

theorem get_links_total_links:
  assumes "page api (wiki self) t = Inr p" and "exists p"
  shows "\<exists>ls. fst (get_links api self t limit) =
                 Inr [(''title'', Str (title p)),
                      (''links'', StrList ls),
                      (''total_links'', PyInt (int (length (links p))))]
              \<and> (length (links p) = 10 \<and> limit = Some 5 \<longrightarrow> length ls = 5)"
proof -
  let ?ls = "if truthy limit then slice_to (map fst (links p)) limit else map fst (links p)"
  have "fst (get_links api self t limit) =
          Inr [(''title'', Str (title p)),
               (''links'', StrList ?ls),
               (''total_links'', PyInt (int (length (links p))))]"
    using assms by (simp add: get_links_def Let_def)
  moreover have "length (links p) = 10 \<and> limit = Some 5 \<longrightarrow> length ?ls = 5"
    by (simp add: truthy_def slice_to_def)
  ultimately show ?thesis
    by blast
qed

theorem get_links_total_links_witness:
  "page (mock_wikipedia 10) (wiki (mock_wiki ''en'')) ''Python'' = Inr (mock_page 10)
   \<and> exists (mock_page 10)
   \<and> length (links (mock_page 10)) = 10
   \<and> fst (get_links (mock_wikipedia 10) (mock_wiki ''en'') ''Python'' (Some 5)) =
        Inr [(''title'', Str ''Python''),
             (''links'', StrList [''Link0'', ''Link1'', ''Link2'', ''Link3'', ''Link4'']),
             (''total_links'', PyInt 10)]"
proof -
  have h1: "page (mock_wikipedia 10) (wiki (mock_wiki ''en'')) ''Python'' = Inr (mock_page 10)"
    by (simp add: mock_page_reads)
  have h2: "exists (mock_page 10)"
    by (simp add: mock_page_reads)
  from get_links_total_links [OF h1 h2, of "Some 5"] h1 h2 show ?thesis
    by (auto simp add: mock_page_reads get_links_def truthy_def slice_to_def link_titles_10)
qed

text \<open>
  C10 as stated, "for every existing page a negative limit does not return the full
  sequence", fails on a page without links: the page exists, the limit \<open>-1\<close> is negative,
  and the slice \<^verbatim>\<open>[][:-1]\<close> is the empty list, which is all the links the page has and
  what \<^verbatim>\<open>get_links\<close> returns without a limit.
\<close>

theorem get_links_negative_limit_counterexample:
  "page (mock_wikipedia 0) (wiki (mock_wiki ''en'')) ''Python'' = Inr (mock_page 0)
   \<and> exists (mock_page 0)
   \<and> (- 1 :: int) < 0
   \<and> map fst (links (mock_page 0)) = []
   \<and> fst (get_links (mock_wikipedia 0) (mock_wiki ''en'') ''Python'' (Some (- 1))) =
        Inr [(''title'', Str ''Python''),
             (''links'', StrList (map fst (links (mock_page 0)))),
             (''total_links'', PyInt 0)]
   \<and> fst (get_links (mock_wikipedia 0) (mock_wiki ''en'') ''Python'' (Some (- 1))) =
        fst (get_links (mock_wikipedia 0) (mock_wiki ''en'') ''Python'' None)"
  by (simp add: get_links_def mock_page_reads link_titles_def truthy_def slice_to_def)

text \<open>
  C10, as amended. For a page that exists and a negative limit \<open>n\<close>, \<^verbatim>\<open>get_links\<close> returns
  the link titles without their last \<open>|n|\<close> entries (the slice \<^verbatim>\<open>links[:n]\<close>; nothing is
  left when there are at most \<open>|n|\<close> links), which is not the full list when the page has
  at least one link, while \<^verbatim>\<open>total_links\<close> still counts all links; with 10 links and
  limit \<open>-1\<close> the \<^verbatim>\<open>links\<close> field has length 9.
\<close>

theorem get_links_negative_limit:
  assumes "page api (wiki self) t = Inr p" and "exists p" and "n < 0"
  shows "fst (get_links api self t (Some n)) =
           Inr [(''title'', Str (title p)),
                (''links'', StrList (take (length (links p) - nat (- n)) (map fst (links p)))),
                (''total_links'', PyInt (int (length (links p))))]
       \<and> (links p \<noteq> [] \<longrightarrow>
            take (length (links p) - nat (- n)) (map fst (links p)) \<noteq> map fst (links p))
       \<and> (length (links p) = 10 \<and> n = - 1 \<longrightarrow>
            length (take (length (links p) - nat (- n)) (map fst (links p))) = 9)"
proof -
  have eq: "nat (int (length (links p)) + n) = length (links p) - nat (- n)"
    using \<open>n < 0\<close> by linarith
  have a: "fst (get_links api self t (Some n)) =
           Inr [(''title'', Str (title p)),
                (''links'', StrList (take (length (links p) - nat (- n)) (map fst (links p)))),
                (''total_links'', PyInt (int (length (links p))))]"
    using assms by (simp add: get_links_def truthy_def slice_to_def eq)
  have b: "links p \<noteq> [] \<longrightarrow>
            take (length (links p) - nat (- n)) (map fst (links p)) \<noteq> map fst (links p)"
  proof
    assume ne: "links p \<noteq> []"
    then have "length (links p) - nat (- n) < length (map fst (links p))"
      using \<open>n < 0\<close> by (cases "links p") auto
    then have "length (take (length (links p) - nat (- n)) (map fst (links p)))
                 < length (map fst (links p))"
      by simp
    then show "take (length (links p) - nat (- n)) (map fst (links p)) \<noteq> map fst (links p)"
      by (metis less_irrefl)
  qed
  have c: "length (links p) = 10 \<and> n = - 1 \<longrightarrow>
            length (take (length (links p) - nat (- n)) (map fst (links p))) = 9"
    by simp
  from a b c show ?thesis by blast
qed

theorem get_links_negative_limit_witness:
  "page (mock_wikipedia 10) (wiki (mock_wiki ''en'')) ''Python'' = Inr (mock_page 10)
   \<and> exists (mock_page 10)
   \<and> (- 1 :: int) < 0
   \<and> fst (get_links (mock_wikipedia 10) (mock_wiki ''en'') ''Python'' (Some (- 1))) =
        Inr [(''title'', Str ''Python''),
             (''links'', StrList [''Link0'', ''Link1'', ''Link2'', ''Link3'', ''Link4'',
                                  ''Link5'', ''Link6'', ''Link7'', ''Link8'']),
             (''total_links'', PyInt 10)]"
proof -
  have h1: "page (mock_wikipedia 10) (wiki (mock_wiki ''en'')) ''Python'' = Inr (mock_page 10)"
    by (simp add: mock_page_reads)
  have h2: "exists (mock_page 10)"
    by (simp add: mock_page_reads)
  have h3: "(- 1 :: int) < 0"
    by simp
  from get_links_negative_limit [OF h1 h2 h3] h1 h2 show ?thesis
    by (simp add: mock_page_reads link_titles_10)
qed

section \<open>The shape of successful results\<close>

text \<open>
  C4. For a page that exists, the \<^verbatim>\<open>links\<close> field of \<^verbatim>\<open>get_full_article\<close> is the first 20
  link titles in the order the library holds them, nothing sorted and nothing removed,
  so it has \<open>min 20 (number of links)\<close> entries.
\<close>

theorem get_full_article_links:
  assumes "page api (wiki self) t = Inr p" and "exists p"
  shows "\<exists>d ls. fst (get_full_article api self t) = Inr d
               \<and> map_of d ''links'' = Some (StrList ls)
               \<and> ls = take 20 (map fst (links p))
               \<and> length ls = min 20 (length (links p))"
  using assms
  by (simp add: get_full_article_def)

theorem get_full_article_links_witness:
  "page (mock_wikipedia 30) (wiki (mock_wiki ''en'')) ''Python'' = Inr (mock_page 30)
   \<and> exists (mock_page 30)
   \<and> (\<exists>d ls. fst (get_full_article (mock_wikipedia 30) (mock_wiki ''en'') ''Python'') = Inr d
            \<and> map_of d ''links'' = Some (StrList ls)
            \<and> ls = take 20 (link_titles 30)
            \<and> length ls = 20)"
proof -
  have h1: "page (mock_wikipedia 30) (wiki (mock_wiki ''en'')) ''Python'' = Inr (mock_page 30)"
    by (simp add: mock_page_reads)
  have h2: "exists (mock_page 30)"
    by (simp add: mock_page_reads)
  from get_full_article_links [OF h1 h2] h1 h2 show ?thesis
    by (simp add: mock_page_reads)
qed

text \<open>
  C5. For a page that exists, the result of \<^verbatim>\<open>get_summary\<close> has exactly the two keys
  \<^verbatim>\<open>title\<close> and \<^verbatim>\<open>summary\<close>, which hold the page's title and summary.
\<close>

theorem get_summary_two_keys:
  assumes "page api (wiki self) t = Inr p" and "exists p"
  shows "\<exists>d. fst (get_summary api self t) = Inr d
            \<and> map fst d = [''title'', ''summary'']
            \<and> map_of d ''title'' = Some (Str (title p))
            \<and> map_of d ''summary'' = Some (Str (summary p))"
  using assms
  by (simp add: get_summary_def)

theorem get_summary_two_keys_witness:
  "page (mock_wikipedia 3) (wiki (mock_wiki ''en'')) ''Python'' = Inr (mock_page 3)
   \<and> exists (mock_page 3)
   \<and> (\<exists>d. fst (get_summary (mock_wikipedia 3) (mock_wiki ''en'') ''Python'') = Inr d
          \<and> map fst d = [''title'', ''summary'']
          \<and> map_of d ''title'' = Some (Str ''Python'')
          \<and> map_of d ''summary'' = Some (Str ''Python is a programming language.''))"
proof -
  have h1: "page (mock_wikipedia 3) (wiki (mock_wiki ''en'')) ''Python'' = Inr (mock_page 3)"
    by (simp add: mock_page_reads)
  have h2: "exists (mock_page 3)"
    by (simp add: mock_page_reads)
  from get_summary_two_keys [OF h1 h2] h1 h2 show ?thesis
    by (simp add: mock_page_reads)
qed

section \<open>Switching the language\<close>

text \<open>
  C6. After \<^verbatim>\<open>set_language(code)\<close> the configuration's language is \<open>code\<close>, so \<^verbatim>\<open>to_dict()\<close>
  gives \<^verbatim>\<open>{"language": code}\<close>. When the library hands out a handle \<open>h\<close> for \<open>code\<close>, the
  call returns normally, the old handle is replaced by \<open>h\<close>, and every read operation
  that follows answers from \<open>h\<close>. The configuration is updated before the handle is
  acquired: when the acquisition raises, the fault passes through and the object is left
  with the new language and the old handle.
\<close>

theorem set_language_effect:
  "to_dict (config (snd (set_language api self code))) = [(''language'', code)]
   \<and> (\<forall>h. Wikipedia api USER_AGENT code = Inr h \<longrightarrow>
          set_language api self code =
            (Inr (), self\<lparr>config := (config self)\<lparr>language := code\<rparr>, wiki := h\<rparr>)
        \<and> (\<forall>t limit.
              fst (get_full_article api (snd (set_language api self code)) t) =
                fst (get_full_article api (self\<lparr>wiki := h\<rparr>) t)
            \<and> fst (get_summary api (snd (set_language api self code)) t) =
                fst (get_summary api (self\<lparr>wiki := h\<rparr>) t)
            \<and> fst (get_sections api (snd (set_language api self code)) t) =
                fst (get_sections api (self\<lparr>wiki := h\<rparr>) t)
            \<and> fst (get_links api (snd (set_language api self code)) t limit) =
                fst (get_links api (self\<lparr>wiki := h\<rparr>) t limit)))
   \<and> (\<forall>e. Wikipedia api USER_AGENT code = Inl e \<longrightarrow>
          set_language api self code =
            (Inl e, self\<lparr>config := (config self)\<lparr>language := code\<rparr>\<rparr>))"
proof -
  have cfg: "to_dict (config (snd (set_language api self code))) = [(''language'', code)]"
    by (simp add: set_language_def Config_set_language_def to_dict_def Let_def split: sum.split)
  have ok: "set_language api self code =
              (Inr (), self\<lparr>config := (config self)\<lparr>language := code\<rparr>, wiki := h\<rparr>)"
    if "Wikipedia api USER_AGENT code = Inr h" for h
    using that by (simp add: set_language_def Config_set_language_def Let_def)
  have reads: "fst (get_full_article api (snd (set_language api self code)) t) =
                fst (get_full_article api (self\<lparr>wiki := h\<rparr>) t)
            \<and> fst (get_summary api (snd (set_language api self code)) t) =
                fst (get_summary api (self\<lparr>wiki := h\<rparr>) t)
            \<and> fst (get_sections api (snd (set_language api self code)) t) =
                fst (get_sections api (self\<lparr>wiki := h\<rparr>) t)
            \<and> fst (get_links api (snd (set_language api self code)) t limit) =
                fst (get_links api (self\<lparr>wiki := h\<rparr>) t limit)"
    if "Wikipedia api USER_AGENT code = Inr h" for h t limit
    by (simp add: ok [OF that] get_full_article_def get_summary_def get_sections_def
          get_links_def Let_def split: sum.split)
  have bad: "set_language api self code =
               (Inl e, self\<lparr>config := (config self)\<lparr>language := code\<rparr>\<rparr>)"
    if "Wikipedia api USER_AGENT code = Inl e" for e
    using that by (simp add: set_language_def Config_set_language_def Let_def)
  from cfg ok reads bad show ?thesis
    by blast
qed

theorem set_language_effect_witness:
  "Wikipedia (mock_wikipedia 3) USER_AGENT ''es'' = Inr (USER_AGENT, ''es'')
   \<and> set_language (mock_wikipedia 3) (mock_wiki ''en'') ''es'' = (Inr (), mock_wiki ''es'')
   \<and> to_dict (config (snd (set_language (mock_wikipedia 3) (mock_wiki ''en'') ''es''))) =
        [(''language'', ''es'')]
   \<and> fst (get_summary (mock_wikipedia 3)
            (snd (set_language (mock_wikipedia 3) (mock_wiki ''en'') ''es'')) ''Python'') =
        fst (get_summary (mock_wikipedia 3) (mock_wiki ''es'') ''Python'')
   \<and> Wikipedia (mock_wikipedia 3) USER_AGENT [] = Inl (TransportFault ''no language'')
   \<and> set_language (mock_wikipedia 3) (mock_wiki ''en'') [] =
        (Inl (TransportFault ''no language''),
         \<lparr>config = \<lparr>language = []\<rparr>, wiki = (USER_AGENT, ''en'')\<rparr>)"
proof -
  have h1: "Wikipedia (mock_wikipedia 3) USER_AGENT ''es'' = Inr (USER_AGENT, ''es'')"
    by (simp add: mock_wikipedia_def)
  have h2: "Wikipedia (mock_wikipedia 3) USER_AGENT [] = Inl (TransportFault ''no language'')"
    by (simp add: mock_wikipedia_def)
  from set_language_effect [of "mock_wikipedia 3" "mock_wiki ''en''" "''es''"]
       set_language_effect [of "mock_wikipedia 3" "mock_wiki ''en''" "[]"] h1 h2
  show ?thesis
    by (simp add: mock_wiki_def to_dict_def)
qed

section \<open>What the read operations leave alone\<close>

text \<open>
  C9. Each read operation (\<^verbatim>\<open>get_full_article\<close>, \<^verbatim>\<open>get_summary\<close>, \<^verbatim>\<open>get_sections\<close>,
  \<^verbatim>\<open>get_links\<close>) leaves the facade as it was, configuration and handle alike, whether the
  page exists, does not exist, or the library raises. \<^verbatim>\<open>set_language\<close> is the method that
  changes it: called with a code other than the current one it leaves a different
  object.
\<close>

theorem read_operations_frame:
  "snd (get_full_article api self t) = self
   \<and> snd (get_summary api self t) = self
   \<and> snd (get_sections api self t) = self
   \<and> snd (get_links api self t limit) = self
   \<and> (code \<noteq> language (config self) \<longrightarrow> snd (set_language api self code) \<noteq> self)"
proof -
  have "language (config (snd (set_language api self code))) = code"
    by (simp add: set_language_def Config_set_language_def Let_def split: sum.split)
  then have "code \<noteq> language (config self) \<longrightarrow> snd (set_language api self code) \<noteq> self"
    by auto
  then show ?thesis
    by (simp add: get_full_article_def get_summary_def get_sections_def get_links_def Let_def
          split: sum.split)
qed

theorem read_operations_frame_witness:
  "snd (get_full_article (mock_wikipedia 3) (mock_wiki ''en'') ''Python'') = mock_wiki ''en''
   \<and> snd (get_summary (mock_wikipedia 3) (mock_wiki ''en'') ''Atlantis'') = mock_wiki ''en''
   \<and> snd (get_sections (mock_wikipedia 3) (mock_wiki ''en'') ''Python'') = mock_wiki ''en''
   \<and> snd (get_links (mock_wikipedia 3) (mock_wiki ''en'') ''Python'' (Some 2)) = mock_wiki ''en''
   \<and> ''es'' \<noteq> language (config (mock_wiki ''en''))
   \<and> snd (set_language (mock_wikipedia 3) (mock_wiki ''en'') ''es'') \<noteq> mock_wiki ''en''"
proof -
  have h: "''es'' \<noteq> language (config (mock_wiki ''en''))"
    by (simp add: mock_wiki_def)
  from read_operations_frame [of "mock_wikipedia 3" "mock_wiki ''en''" "''Python''" "Some 2" "''es''"]
       read_operations_frame [of "mock_wikipedia 3" "mock_wiki ''en''" "''Atlantis''" "Some 2" "''es''"] h
  show ?thesis
    by simp
qed

section \<open>The command line entry point\<close>

text \<open>
  C8. Without a title argument \<^verbatim>\<open>main\<close> prints the usage line and exits with code 1. When
  the handle is acquired and the page of the title does not exist, it prints the
  configuration line, then the line \<^verbatim>\<open>Error: Page '<title>' does not exist\<close>, and exits
  with code 1. With a title and no language argument it does what it does with the
  language argument \<^verbatim>\<open>en\<close>.
\<close>

theorem main_exit_codes:
  "(length argv < 2 \<longrightarrow> main api argv = ([usage], SystemExit 1))
   \<and> (\<forall>l h p.
         2 \<le> length argv
         \<and> l = (if 2 < length argv then argv ! 2 else ''en'')
         \<and> Wikipedia api USER_AGENT l = Inr h
         \<and> page api h (argv ! 1) = Inr p \<and> \<not> exists p \<longrightarrow>
         main api argv =
           ([''Configuration: Config(language='' @ [CHR 0x27] @ l @ [CHR 0x27] @ '')'',
             ''Error: '' @ ''Page '' @ [CHR 0x27] @ argv ! 1 @ [CHR 0x27] @ '' does not exist''],
            SystemExit 1))
   \<and> (length argv = 2 \<longrightarrow> main api argv = main api (argv @ [''en'']))"
proof -
  have a: "length argv < 2 \<longrightarrow> main api argv = ([usage], SystemExit 1)"
    by (simp add: main_def)
  have b: "main api argv =
           ([''Configuration: Config(language='' @ [CHR 0x27] @ l @ [CHR 0x27] @ '')'',
             ''Error: '' @ ''Page '' @ [CHR 0x27] @ argv ! 1 @ [CHR 0x27] @ '' does not exist''],
            SystemExit 1)"
    if "2 \<le> length argv" "l = (if 2 < length argv then argv ! 2 else ''en'')"
       "Wikipedia api USER_AGENT l = Inr h" "page api h (argv ! 1) = Inr p" "\<not> exists p"
    for l h p
  proof -
    have i: "WikiArticles_init api (Some \<lparr>language = l\<rparr>) =
               Inr \<lparr>config = \<lparr>language = l\<rparr>, wiki = h\<rparr>"
      using that(3) by (simp add: WikiArticles_init_def)
    have g: "fst (get_full_article api \<lparr>config = \<lparr>language = l\<rparr>, wiki = h\<rparr> (argv ! Suc 0)) =
               Inr (not_found (argv ! Suc 0))"
      using that(4,5) by (simp add: get_full_article_def)
    have n: "\<not> length argv < 2"
      using that(1) by simp
    show ?thesis
      unfolding main_def Let_def that(2) [symmetric]
      by (simp add: n i g not_found_def getitem_def bind_exn_def Config_repr_def Config_init_def)
  qed
  have c: "length argv = 2 \<longrightarrow> main api argv = main api (argv @ [''en''])"
    by (simp add: main_def nth_append)
  from a b c show ?thesis
    by blast
qed


theorem main_exit_codes_witness:
  "length [''search_wiki_article.py''] < 2
   \<and> main (mock_wikipedia 3) [''search_wiki_article.py''] =
        ([''Usage: python search_wiki_article.py <article_title> [language]''], SystemExit 1)
   \<and> 2 \<le> length [''search_wiki_article.py'', ''Atlantis'']
   \<and> Wikipedia (mock_wikipedia 3) USER_AGENT ''en'' = Inr (USER_AGENT, ''en'')
   \<and> page (mock_wikipedia 3) (USER_AGENT, ''en'') ''Atlantis'' = Inr (mock_missing ''Atlantis'')
   \<and> \<not> exists (mock_missing ''Atlantis'')
   \<and> main (mock_wikipedia 3) [''search_wiki_article.py'', ''Atlantis''] =
        ([''Configuration: Config(language='' @ [CHR 0x27] @ ''en'' @ [CHR 0x27] @ '')'',
          ''Error: Page '' @ [CHR 0x27] @ ''Atlantis'' @ [CHR 0x27] @ '' does not exist''],
         SystemExit 1)
   \<and> length [''search_wiki_article.py'', ''Python''] = 2
   \<and> main (mock_wikipedia 3) [''search_wiki_article.py'', ''Python''] =
        main (mock_wikipedia 3) [''search_wiki_article.py'', ''Python'', ''en'']"
proof -
  have h1: "Wikipedia (mock_wikipedia 3) USER_AGENT ''en'' = Inr (USER_AGENT, ''en'')"
    by (simp add: mock_wikipedia_def)
  have h2: "page (mock_wikipedia 3) (USER_AGENT, ''en'') ''Atlantis'' = Inr (mock_missing ''Atlantis'')"
    by (simp add: mock_wikipedia_def)
  have h3: "\<not> exists (mock_missing ''Atlantis'')"
    by (simp add: mock_missing_def)
  from main_exit_codes [of "[''search_wiki_article.py'']" "mock_wikipedia 3"]
  have a: "main (mock_wikipedia 3) [''search_wiki_article.py''] =
             ([''Usage: python search_wiki_article.py <article_title> [language]''], SystemExit 1)"
    by (simp add: usage_def)
  from main_exit_codes [of "[''search_wiki_article.py'', ''Atlantis'']" "mock_wikipedia 3"] h1 h2 h3
  have b: "main (mock_wikipedia 3) [''search_wiki_article.py'', ''Atlantis''] =
        ([''Configuration: Config(language='' @ [CHR 0x27] @ ''en'' @ [CHR 0x27] @ '')'',
          ''Error: Page '' @ [CHR 0x27] @ ''Atlantis'' @ [CHR 0x27] @ '' does not exist''],
         SystemExit 1)"
    by simp
  from main_exit_codes [of "[''search_wiki_article.py'', ''Python'']" "mock_wikipedia 3"]
  have c: "main (mock_wikipedia 3) [''search_wiki_article.py'', ''Python''] =
        main (mock_wikipedia 3) [''search_wiki_article.py'', ''Python'', ''en'']"
    by simp
  from a b c h1 h2 h3 show ?thesis
    by simp
qed

text \<open>
  For a page that exists \<^verbatim>\<open>main\<close> prints eight lines and returns; none of its dictionary
  reads raises.
\<close>

lemma main_prints_existing_page:
  assumes "2 \<le> length argv"
    and "l = (if 2 < length argv then argv ! 2 else ''en'')"
    and "Wikipedia api USER_AGENT l = Inr h"
    and "page api h (argv ! 1) = Inr p" and "exists p"
  shows "main api argv =
           ([''Configuration: Config(language='' @ [CHR 0x27] @ l @ [CHR 0x27] @ '')'',
             ''Title: '' @ title p,
             ''URL: '' @ fullurl p,
             CHR 0x0A # ''--- FULL ARTICLE ---'',
             page_text p,
             CHR 0x0A # ''--- METADATA ---'',
             ''Total characters: '' @ str_nat (length (page_text p)),
             ''Sections: '' @ join '', '' (take 5 (map section_title (sections p))) @ ''...''],
            Returned)"
proof -
  have i: "WikiArticles_init api (Some \<lparr>language = l\<rparr>) =
             Inr \<lparr>config = \<lparr>language = l\<rparr>, wiki = h\<rparr>"
    using assms(3) by (simp add: WikiArticles_init_def)
  have n: "\<not> length argv < 2"
    using assms(1) by simp
  have p: "page api h (argv ! Suc 0) = Inr p"
    using assms(4) by simp
  show ?thesis
    unfolding main_def Let_def assms(2) [symmetric]
    by (simp add: n i p assms(5) get_full_article_def print_article_def getitem_def
          bind_exn_def Config_repr_def Config_init_def)
qed

end
